theory Spec2Isabelle
  imports Complex_Main
begin

section \<open>Python strings\<close>

text \<open>
  A Python \<open>str\<close> is modelled as a \<open>string\<close>; one \<open>char\<close> stands for one code point
  (so the model covers the code points \<open>0..255\<close>, and \<open>length\<close> is Python's \<open>len\<close>).
  \<open>py_isspace\<close> lists the code points in that range that \<open>str.strip()\<close> removes:
  TAB, LF, VT, FF, CR, the separators \<open>0x1C..0x1F\<close>, SPACE, NEL \<open>0x85\<close> and NBSP \<open>0xA0\<close>.
\<close>

definition py_isspace :: "char \<Rightarrow> bool" where
  "py_isspace c = (let n = (of_char c :: nat) in
     (9 \<le> n \<and> n \<le> 13) \<or> (28 \<le> n \<and> n \<le> 32) \<or> n = 133 \<or> n = 160)"

definition py_strip :: "string \<Rightarrow> string" where
  "py_strip s = rev (dropWhile py_isspace (rev (dropWhile py_isspace s)))"

text \<open>
  \<open>content.split('\n')\<close>: the empty string gives one empty line. The result is never
  empty, so the first branch of the \<open>case\<close> is not reached.
\<close>

fun split_nl :: "string \<Rightarrow> string list" where
  "split_nl [] = [[]]"
| "split_nl (c # cs) =
     (if c = CHR 0x0A then [] # split_nl cs
      else (case split_nl cs of [] \<Rightarrow> [[c]] | l # ls \<Rightarrow> (c # l) # ls))"

text \<open>\<open>'\n'.join(lines)\<close>.\<close>

fun join_nl :: "string list \<Rightarrow> string" where
  "join_nl [] = []"
| "join_nl [l] = l"
| "join_nl (l # m # ls) = l @ CHR 0x0A # join_nl (m # ls)"

definition startswith :: "string \<Rightarrow> string \<Rightarrow> bool" where
  "startswith s p = (take (length p) s = p)"

text \<open>
  \<open>line.split(':', 1)[1]\<close>: the text after the first colon; \<open>None\<close> stands for the
  \<open>IndexError\<close> raised when the line has no colon.
\<close>

definition split_colon_1 :: "string \<Rightarrow> string option" where
  "split_colon_1 line =
     (case dropWhile (\<lambda>c. c \<noteq> CHR '':'') line of [] \<Rightarrow> None | _ # r \<Rightarrow> Some r)"

text \<open>\<open>s.replace(c, '')\<close> for a single character \<open>c\<close>.\<close>

definition remove_char :: "char \<Rightarrow> string \<Rightarrow> string" where
  "remove_char c s = filter (\<lambda>d. d \<noteq> c) s"

datatype py_exn = ValueError | IndexError

section \<open>Python floats\<close>

text \<open>
  A \<open>float\<close> is a finite value, an infinity or NaN. Finite values are kept as reals: the
  comparisons the code makes are exact on doubles, and the rounding of arithmetic results
  to the nearest double is not modelled. \<open>fl_lt\<close> is Python's \<open><\<close>, false whenever an
  operand is NaN. The built-ins \<open>min(a, b)\<close> and \<open>max(a, b)\<close> keep the first argument
  unless the second compares strictly smaller (greater).
\<close>

datatype pyfloat = Fin real | PInf | NInf | NaN

fun fl_lt :: "pyfloat \<Rightarrow> pyfloat \<Rightarrow> bool" where
  "fl_lt (Fin a) (Fin b) = (a < b)"
| "fl_lt (Fin a) PInf = True"
| "fl_lt NInf (Fin b) = True"
| "fl_lt NInf PInf = True"
| "fl_lt _ _ = False"

definition py_min :: "pyfloat \<Rightarrow> pyfloat \<Rightarrow> pyfloat" where
  "py_min a b = (if fl_lt b a then b else a)"

definition py_max :: "pyfloat \<Rightarrow> pyfloat \<Rightarrow> pyfloat" where
  "py_max a b = (if fl_lt a b then b else a)"

definition in_unit :: "pyfloat \<Rightarrow> bool" where
  "in_unit x = (case x of Fin r \<Rightarrow> 0 \<le> r \<and> r \<le> 1 | PInf \<Rightarrow> False | NInf \<Rightarrow> False | NaN \<Rightarrow> False)"

text \<open>
  The built-in \<open>float(str)\<close> is not code of the repository; the extraction functions take
  it as a parameter \<open>pf\<close>, \<open>None\<close> standing for \<open>ValueError\<close>. \<open>float_decimal\<close> is
  its fragment on plain decimal literals (an optional sign, digits, an optional point,
  digits, at least one digit), used where a concrete parser is needed; Python accepts
  further spellings (exponents, \<open>inf\<close>, \<open>nan\<close>, digit groups) that the fragment rejects.
\<close>

type_synonym float_parser = "string \<Rightarrow> pyfloat option"

definition is_digit :: "char \<Rightarrow> bool" where
  "is_digit c = (let n = (of_char c :: nat) in 48 \<le> n \<and> n \<le> 57)"

definition nat_of_digits :: "string \<Rightarrow> nat" where
  "nat_of_digits s = foldl (\<lambda>a c. 10 * a + (of_char c - 48)) 0 s"

definition float_decimal :: float_parser where
  "float_decimal s =
     (let neg = (case s of [] \<Rightarrow> False | c # _ \<Rightarrow> c = CHR ''-'');
          body = (case s of [] \<Rightarrow> [] | c # r \<Rightarrow> if c = CHR ''-'' \<or> c = CHR ''+'' then r else s);
          ip = takeWhile is_digit body;
          fp = (case dropWhile is_digit body of
                  [] \<Rightarrow> Some []
                | c # r \<Rightarrow> if c = CHR ''.'' \<and> list_all is_digit r then Some r else None)
      in case fp of
           None \<Rightarrow> None
         | Some f \<Rightarrow>
             if ip = [] \<and> f = [] then None
             else let v = real (nat_of_digits (ip @ f)) / 10 ^ length f
                  in Some (Fin (if neg then - v else v)))"

section \<open>Field extraction\<close>

subsection \<open>\<open>MultiPerspectiveNodes\<close> (graph/multi\_perspective\_nodes.py)\<close>

text \<open>
  The loop of \<open>_extract_section\<close> and \<open>_extract_judge_section\<close>, which differ in the list
  of tags that end a section. The arguments \<open>capturing\<close> and \<open>acc\<close> are the loop's variables
  \<open>capturing\<close> and \<open>section_content\<close>; \<open>Inl\<close> is an exception raised inside the \<open>try\<close>.
\<close>

fun section_scan ::
  "string list \<Rightarrow> string \<Rightarrow> string list \<Rightarrow> bool \<Rightarrow> string list \<Rightarrow> py_exn + string list" where
  "section_scan stops name [] capturing acc = Inr acc"
| "section_scan stops name (line # rest) capturing acc =
     (if startswith (py_strip line) (name @ '':'') then
        (case split_colon_1 line of
           None \<Rightarrow> Inl IndexError
         | Some v \<Rightarrow> section_scan stops name rest True (acc @ [py_strip v]))
      else if capturing \<and> list_ex (\<lambda>s. startswith (py_strip line) (s @ '':'')) stops then
        Inr acc
      else if capturing then section_scan stops name rest capturing (acc @ [line])
      else section_scan stops name rest capturing acc)"

definition section_tags :: "string list" where
  "section_tags = [''PERSPECTIVE_ANALYSIS'', ''REASONING'', ''CONFIDENCE'',
     ''ENVIRONMENTAL_ANALYSIS'', ''COMPARISON'', ''SYNTHESIS'', ''TECHNOLOGICAL_ANALYSIS'',
     ''COMPLETE_SYNTHESIS'', ''FINAL_CONFIDENCE'']"

definition extract_section :: "string \<Rightarrow> string \<Rightarrow> string" where
  "extract_section content section_name =
     (case section_scan section_tags section_name (split_nl content) False [] of
        Inl _ \<Rightarrow> content
      | Inr section_content \<Rightarrow> py_strip (join_nl section_content))"

definition judge_section_tags :: "string list" where
  "judge_section_tags = [''EVALUATION'', ''AGREEMENTS_DISAGREEMENTS'', ''BEST_INSIGHTS'',
     ''FINAL_SYNTHESIS'', ''CLAUDE_SCORE'', ''GPT_SCORE'', ''GROK_SCORE'']"

definition extract_judge_section :: "string \<Rightarrow> string \<Rightarrow> string" where
  "extract_judge_section content section_name =
     (case section_scan judge_section_tags section_name (split_nl content) False [] of
        Inl _ \<Rightarrow> content
      | Inr section_content \<Rightarrow> py_strip (join_nl section_content))"

text \<open>\<open>_extract_confidence\<close>: the first tagged line decides; nothing is clamped.\<close>

fun confidence_scan :: "float_parser \<Rightarrow> string list \<Rightarrow> py_exn + pyfloat" where
  "confidence_scan pf [] = Inr (Fin (7 / 10))"
| "confidence_scan pf (line # rest) =
     (if startswith (py_strip line) ''CONFIDENCE:''
         \<or> startswith (py_strip line) ''FINAL_CONFIDENCE:'' then
        (case split_colon_1 line of
           None \<Rightarrow> Inl IndexError
         | Some v \<Rightarrow>
             (case pf (py_strip v) of None \<Rightarrow> Inl ValueError | Some x \<Rightarrow> Inr x))
      else confidence_scan pf rest)"

definition extract_confidence :: "float_parser \<Rightarrow> string \<Rightarrow> pyfloat" where
  "extract_confidence pf content =
     (case confidence_scan pf (split_nl content) of
        Inl _ \<Rightarrow> Fin (7 / 10)
      | Inr x \<Rightarrow> x)"

text \<open>\<open>_extract_judge_score\<close>: \<open>max(0.0, min(1.0, float(score_str)))\<close>.\<close>

fun judge_score_scan :: "float_parser \<Rightarrow> string \<Rightarrow> string list \<Rightarrow> py_exn + pyfloat" where
  "judge_score_scan pf name [] = Inr (Fin (1 / 2))"
| "judge_score_scan pf name (line # rest) =
     (if startswith (py_strip line) (name @ '':'') then
        (case split_colon_1 line of
           None \<Rightarrow> Inl IndexError
         | Some v \<Rightarrow>
             (case pf (py_strip v) of
                None \<Rightarrow> Inl ValueError
              | Some x \<Rightarrow> Inr (py_max (Fin 0) (py_min (Fin 1) x))))
      else judge_score_scan pf name rest)"

definition extract_judge_score :: "float_parser \<Rightarrow> string \<Rightarrow> string \<Rightarrow> pyfloat" where
  "extract_judge_score pf content score_name =
     (case judge_score_scan pf score_name (split_nl content) of
        Inl _ \<Rightarrow> Fin (1 / 2)
      | Inr x \<Rightarrow> x)"

subsection \<open>\<open>UnbiasedJudge\<close> (utils/judge.py)\<close>

text \<open>
  \<open>UnbiasedJudge._extract_section\<close> appends the text after the colon only when it is not
  empty, ends a section at its own tag tuple, and returns the whole content when the
  result is empty.
\<close>

definition unbiased_judge_tags :: "string list" where
  "unbiased_judge_tags = [''ANALYSIS:'', ''SYNTHESIS:'', ''SCORES:'', ''REASONING:'',
     ''CLAUDE_SCORE:'', ''GPT_SCORE:'', ''GROK_SCORE:'']"

fun unbiased_judge_scan ::
  "string \<Rightarrow> string list \<Rightarrow> bool \<Rightarrow> string list \<Rightarrow> py_exn + string list" where
  "unbiased_judge_scan name [] capturing acc = Inr acc"
| "unbiased_judge_scan name (line # rest) capturing acc =
     (if startswith (py_strip line) (name @ '':'') then
        (case split_colon_1 line of
           None \<Rightarrow> Inl IndexError
         | Some v \<Rightarrow>
             (let after_colon = py_strip v
              in unbiased_judge_scan name rest True
                   (if after_colon \<noteq> [] then acc @ [after_colon] else acc)))
      else if capturing \<and> list_ex (\<lambda>s. startswith (py_strip line) s) unbiased_judge_tags then
        Inr acc
      else if capturing then unbiased_judge_scan name rest capturing (acc @ [line])
      else unbiased_judge_scan name rest capturing acc)"

definition unbiased_judge_extract_section :: "string \<Rightarrow> string \<Rightarrow> string" where
  "unbiased_judge_extract_section content section_name =
     (case unbiased_judge_scan section_name (split_nl content) False [] of
        Inl _ \<Rightarrow> content
      | Inr section_content \<Rightarrow>
          (let result = py_strip (join_nl section_content)
           in if result \<noteq> [] then result else content))"

text \<open>
  \<open>UnbiasedJudge._extract_score\<close> removes square brackets before parsing and catches
  \<open>ValueError\<close> and \<open>IndexError\<close>, the two exceptions its body can raise.
\<close>

fun unbiased_judge_score_scan ::
  "float_parser \<Rightarrow> string \<Rightarrow> string list \<Rightarrow> py_exn + pyfloat" where
  "unbiased_judge_score_scan pf name [] = Inr (Fin (1 / 2))"
| "unbiased_judge_score_scan pf name (line # rest) =
     (if startswith (py_strip line) (name @ '':'') then
        (case split_colon_1 line of
           None \<Rightarrow> Inl IndexError
         | Some v \<Rightarrow>
             (case pf (py_strip (remove_char CHR '']'' (remove_char CHR ''['' (py_strip v)))) of
                None \<Rightarrow> Inl ValueError
              | Some x \<Rightarrow> Inr (py_max (Fin 0) (py_min (Fin 1) x))))
      else unbiased_judge_score_scan pf name rest)"

definition unbiased_judge_extract_score :: "float_parser \<Rightarrow> string \<Rightarrow> string \<Rightarrow> pyfloat" where
  "unbiased_judge_extract_score pf content score_name =
     (case unbiased_judge_score_scan pf score_name (split_nl content) of
        Inl ValueError \<Rightarrow> Fin (1 / 2)
      | Inl IndexError \<Rightarrow> Fin (1 / 2)
      | Inr x \<Rightarrow> x)"

subsection \<open>What the extraction functions are compared with\<close>

text \<open>
  \<open>has_tag_line content tag\<close>: some line of the text, trimmed, begins with \<open>tag:\<close>.
  \<open>tag_field content tag\<close>: the trimmed text after the first colon of the first such
  line. \<open>confidence_field\<close> is the same for the two confidence tags. \<open>clamp01\<close> is the
  value of \<open>max(0.0, min(1.0, x))\<close> case by case. \<open>weight\<close> counts the characters of a
  list of lines, one more per line for its line break.
\<close>

definition has_tag_line :: "string \<Rightarrow> string \<Rightarrow> bool" where
  "has_tag_line content tag =
     list_ex (\<lambda>l. startswith (py_strip l) (tag @ '':'')) (split_nl content)"

definition tag_field :: "string \<Rightarrow> string \<Rightarrow> string option" where
  "tag_field content tag =
     (case find (\<lambda>l. startswith (py_strip l) (tag @ '':'')) (split_nl content) of
        None \<Rightarrow> None
      | Some line \<Rightarrow> map_option py_strip (split_colon_1 line))"

definition confidence_field :: "string \<Rightarrow> string option" where
  "confidence_field content =
     (case find (\<lambda>l. startswith (py_strip l) ''CONFIDENCE:''
                     \<or> startswith (py_strip l) ''FINAL_CONFIDENCE:'') (split_nl content) of
        None \<Rightarrow> None
      | Some line \<Rightarrow> map_option py_strip (split_colon_1 line))"

definition clamp01 :: "pyfloat \<Rightarrow> pyfloat" where
  "clamp01 x =
     (case x of Fin r \<Rightarrow> Fin (max 0 (min 1 r)) | PInf \<Rightarrow> Fin 1 | NInf \<Rightarrow> Fin 0 | NaN \<Rightarrow> Fin 1)"

definition weight :: "string list \<Rightarrow> nat" where
  "weight ls = sum_list (map length ls) + length ls"

section \<open>Float arithmetic of the metrics\<close>

text \<open>
  \<open>+\<close>, unary \<open>-\<close> and division of a float by a positive integer, on finite values,
  infinities and NaN. \<open>fl_sum\<close> is the built-in \<open>sum\<close>, which starts from \<open>0\<close>.
\<close>

fun fl_add :: "pyfloat \<Rightarrow> pyfloat \<Rightarrow> pyfloat" where
  "fl_add (Fin a) (Fin b) = Fin (a + b)"
| "fl_add NaN _ = NaN"
| "fl_add _ NaN = NaN"
| "fl_add PInf NInf = NaN"
| "fl_add NInf PInf = NaN"
| "fl_add PInf _ = PInf"
| "fl_add _ PInf = PInf"
| "fl_add NInf _ = NInf"
| "fl_add _ NInf = NInf"

fun fl_neg :: "pyfloat \<Rightarrow> pyfloat" where
  "fl_neg (Fin a) = Fin (- a)"
| "fl_neg PInf = NInf"
| "fl_neg NInf = PInf"
| "fl_neg NaN = NaN"

definition fl_sub :: "pyfloat \<Rightarrow> pyfloat \<Rightarrow> pyfloat" where
  "fl_sub a b = fl_add a (fl_neg b)"

fun fl_div_len :: "pyfloat \<Rightarrow> nat \<Rightarrow> pyfloat" where
  "fl_div_len (Fin a) n = Fin (a / real n)"
| "fl_div_len x n = x"

definition fl_sum :: "pyfloat list \<Rightarrow> pyfloat" where
  "fl_sum xs = foldl fl_add (Fin 0) xs"

text \<open>\<open>sub in s\<close> on strings.\<close>

fun py_contains :: "string \<Rightarrow> string \<Rightarrow> bool" where
  "py_contains [] sub = (sub = [])"
| "py_contains (c # cs) sub = (startswith (c # cs) sub \<or> py_contains cs sub)"

section \<open>Data model (graph/multi\_perspective\_state.py)\<close>

datatype Perspective = ECONOMIC | ENVIRONMENTAL | TECHNOLOGICAL

datatype ModelType = CLAUDE | GPT | GROK | JUDGE

text \<open>
  The \<open>metadata\<close> dictionaries, \<open>baseline_response\<close>, \<open>baseline_comparison\<close>,
  \<open>quality_analysis\<close>, \<open>methodology_effectiveness\<close>, \<open>processing_time\<close> and
  \<open>total_tokens_used\<close> are left out: no modelled function reads them. A field that
  defaults to \<open>None\<close> is an \<open>option\<close>; a \<open>Dict[str, float]\<close> is an association list in
  insertion order. Field names that two classes share carry a prefix.
\<close>

record PerspectiveResponse =
  perspective :: Perspective
  pr_content :: string
  reasoning :: string
  pr_confidence :: pyfloat

record BaselineResponse =
  br_model_type :: ModelType
  br_content :: string
  br_confidence :: pyfloat

record MultiPerspectiveAnalysis =
  model_type :: ModelType
  step1_economic :: "PerspectiveResponse option"
  step2_economic_environmental :: string
  step3_complete_synthesis :: string
  final_confidence :: pyfloat
  reasoning_evolution :: "string list"

record InputPackage =
  query :: string
  perspective_1 :: string
  perspective_2 :: string
  perspective_3 :: string
  universal_cot :: string
  perspective_specific_cots :: "string \<rightharpoonup> string"

record MultiPerspectiveEnsembleState =
  input_package :: InputPackage
  claude_baseline :: "BaselineResponse option"
  gpt_baseline :: "BaselineResponse option"
  grok_baseline :: "BaselineResponse option"
  claude_analysis :: "MultiPerspectiveAnalysis option"
  gpt_analysis :: "MultiPerspectiveAnalysis option"
  grok_analysis :: "MultiPerspectiveAnalysis option"
  judge_initial_assessment :: string
  judge_step1_assessment :: string
  judge_step2_assessment :: string
  judge_step3_assessment :: string
  judge_analysis :: string
  agreements_disagreements :: string
  best_insights :: string
  final_synthesis :: string
  methodology_assessment :: string
  quality_scores :: "(string \<times> pyfloat) list"
  improvement_metrics :: "(string \<times> pyfloat) list"
  baselines_complete :: bool
  step1_complete :: bool
  step2_complete :: bool
  step3_complete :: bool
  judging_complete :: bool
  logging_complete :: bool

text \<open>\<open>MultiPerspectiveEnsembleState(input_package=input_package)\<close>: every other field at its default.\<close>

definition initial_state :: "InputPackage \<Rightarrow> MultiPerspectiveEnsembleState" where
  "initial_state pkg =
     \<lparr>input_package = pkg,
      claude_baseline = None, gpt_baseline = None, grok_baseline = None,
      claude_analysis = None, gpt_analysis = None, grok_analysis = None,
      judge_initial_assessment = [], judge_step1_assessment = [],
      judge_step2_assessment = [], judge_step3_assessment = [],
      judge_analysis = [], agreements_disagreements = [], best_insights = [],
      final_synthesis = [], methodology_assessment = [],
      quality_scores = [], improvement_metrics = [],
      baselines_complete = False, step1_complete = False, step2_complete = False,
      step3_complete = False, judging_complete = False, logging_complete = False\<rparr>"

text \<open>The slot of a backend; the judge has none.\<close>

fun baseline_of :: "ModelType \<Rightarrow> MultiPerspectiveEnsembleState \<Rightarrow> BaselineResponse option" where
  "baseline_of CLAUDE s = claude_baseline s"
| "baseline_of GPT s = gpt_baseline s"
| "baseline_of GROK s = grok_baseline s"
| "baseline_of JUDGE s = None"

fun analysis_of :: "ModelType \<Rightarrow> MultiPerspectiveEnsembleState \<Rightarrow> MultiPerspectiveAnalysis option" where
  "analysis_of CLAUDE s = claude_analysis s"
| "analysis_of GPT s = gpt_analysis s"
| "analysis_of GROK s = grok_analysis s"
| "analysis_of JUDGE s = None"

section \<open>The model back ends\<close>

text \<open>
  The four clients (three model back ends and the judge) are external. A run calls each
  client at most once in each node, so the world of a run gives, for every node and client,
  what that call does: it returns the response text, or it raises an exception with the
  message \<open>str(e)\<close>. The prompt only determines what the external service answers and is
  not modelled. \<open>trace\<close> records what happened, in order: the nodes entered and the client
  calls made. The tasks that \<open>asyncio.gather\<close> runs are taken in the order of the task list.
\<close>

datatype 'a outcome = Returned 'a | Raised string

datatype node = BASELINE | STEP1_ECONOMIC | STEP2_ENVIRONMENTAL | STEP3_TECHNOLOGICAL
  | JUDGE_EVALUATION | PERFORMANCE_LOGGING

datatype event = Entered node | Called node ModelType

record world =
  reply :: "node \<Rightarrow> ModelType \<Rightarrow> string outcome"
  trace :: "event list"

definition enter :: "node \<Rightarrow> world \<Rightarrow> world" where
  "enter n w = w\<lparr>trace := trace w @ [Entered n]\<rparr>"

definition invoke :: "node \<Rightarrow> ModelType \<Rightarrow> world \<Rightarrow> string outcome \<times> world" where
  "invoke n m w = (reply w n m, w\<lparr>trace := trace w @ [Called n m]\<rparr>)"

section \<open>Nodes (graph/multi\_perspective\_nodes.py)\<close>

subsection \<open>Helper methods\<close>

text \<open>
  The source has one copy of each helper per back end (\<open>_get_baseline_claude\<close>,
  \<open>_get_baseline_gpt\<close>, \<open>_get_baseline_grok\<close>, and so on), equal up to the client and the
  state slot; the model takes the back end as the argument \<open>m\<close>.
\<close>

definition get_baseline :: "ModelType \<Rightarrow> world \<Rightarrow> BaselineResponse \<times> world" where
  "get_baseline m w =
     (case invoke BASELINE m w of
        (Returned c, w') \<Rightarrow>
          (\<lparr>br_model_type = m, br_content = c, br_confidence = Fin (1 / 2)\<rparr>, w')
      | (Raised e, w') \<Rightarrow>
          (\<lparr>br_model_type = m, br_content = ''Error: '' @ e, br_confidence = Fin 0\<rparr>, w'))"

definition analyze_perspective ::
  "float_parser \<Rightarrow> ModelType \<Rightarrow> Perspective \<Rightarrow> world \<Rightarrow> PerspectiveResponse \<times> world" where
  "analyze_perspective pf m p w =
     (case invoke STEP1_ECONOMIC m w of
        (Returned c, w') \<Rightarrow>
          (\<lparr>perspective = p,
            pr_content = extract_section c ''PERSPECTIVE_ANALYSIS'',
            reasoning = extract_section c ''REASONING'',
            pr_confidence = extract_confidence pf c\<rparr>, w')
      | (Raised e, w') \<Rightarrow>
          (\<lparr>perspective = p, pr_content = ''Error: '' @ e,
            reasoning = ''Error occurred'', pr_confidence = Fin 0\<rparr>, w'))"

definition step2_analysis ::
  "ModelType \<Rightarrow> MultiPerspectiveEnsembleState \<Rightarrow> world \<Rightarrow> string \<times> world" where
  "step2_analysis m state w =
     (if (case analysis_of m state of None \<Rightarrow> True | Some a \<Rightarrow> step1_economic a = None) then
        (''No economic analysis available for comparison'', w)
      else
        (case invoke STEP2_ENVIRONMENTAL m w of
           (Returned c, w') \<Rightarrow> (c, w')
         | (Raised e, w') \<Rightarrow> (''Error in Step 2 analysis: '' @ e, w')))"

definition step3_synthesis ::
  "float_parser \<Rightarrow> ModelType \<Rightarrow> world \<Rightarrow> (string \<times> pyfloat) \<times> world" where
  "step3_synthesis pf m w =
     (case invoke STEP3_TECHNOLOGICAL m w of
        (Returned c, w') \<Rightarrow>
          ((extract_section c ''COMPREHENSIVE_SYNTHESIS'', extract_confidence pf c), w')
      | (Raised e, w') \<Rightarrow> ((''Error in final synthesis: '' @ e, Fin 0), w'))"

text \<open>The judge's stage assessment: the response text, or an error text.\<close>

definition judge_assessment :: "node \<Rightarrow> string \<Rightarrow> world \<Rightarrow> string \<times> world" where
  "judge_assessment n label w =
     (case invoke n JUDGE w of
        (Returned c, w') \<Rightarrow> (c, w')
      | (Raised e, w') \<Rightarrow> (''Error in '' @ label @ '' judge assessment: '' @ e, w'))"

subsection \<open>The six nodes\<close>

text \<open>
  A node returns a dictionary of updates that the graph writes into the state; the model
  returns the updated state. The results of \<open>asyncio.gather(..., return_exceptions=True)\<close>
  are outcomes; the helpers catch every exception themselves, so each result is
  \<open>Returned\<close>, and the \<open>isinstance(result, Exception)\<close> tests are the \<open>case\<close> splits.
\<close>

fun set_baseline ::
  "ModelType \<Rightarrow> BaselineResponse outcome \<Rightarrow> MultiPerspectiveEnsembleState \<Rightarrow> MultiPerspectiveEnsembleState" where
  "set_baseline CLAUDE (Returned b) s = s\<lparr>claude_baseline := Some b\<rparr>"
| "set_baseline GPT (Returned b) s = s\<lparr>gpt_baseline := Some b\<rparr>"
| "set_baseline GROK (Returned b) s = s\<lparr>grok_baseline := Some b\<rparr>"
| "set_baseline _ _ s = s"

definition baseline_analysis_node ::
  "MultiPerspectiveEnsembleState \<Rightarrow> world \<Rightarrow> MultiPerspectiveEnsembleState \<times> world" where
  "baseline_analysis_node state w0 =
     (let (r0, w1) = get_baseline CLAUDE (enter BASELINE w0);
          (r1, w2) = get_baseline GPT w1;
          (r2, w3) = get_baseline GROK w2;
          updates = state\<lparr>baselines_complete := True\<rparr>;
          updates = set_baseline CLAUDE (Returned r0) updates;
          updates = set_baseline GPT (Returned r1) updates;
          updates = set_baseline GROK (Returned r2) updates;
          (judge_initial, w4) = judge_assessment BASELINE ''initial'' w3
      in (updates\<lparr>judge_initial_assessment := judge_initial\<rparr>, w4))"

fun set_analysis ::
  "ModelType \<Rightarrow> MultiPerspectiveAnalysis \<Rightarrow> MultiPerspectiveEnsembleState \<Rightarrow> MultiPerspectiveEnsembleState" where
  "set_analysis CLAUDE a s = s\<lparr>claude_analysis := Some a\<rparr>"
| "set_analysis GPT a s = s\<lparr>gpt_analysis := Some a\<rparr>"
| "set_analysis GROK a s = s\<lparr>grok_analysis := Some a\<rparr>"
| "set_analysis JUDGE a s = s"

definition step1_update ::
  "ModelType \<Rightarrow> PerspectiveResponse outcome \<Rightarrow> MultiPerspectiveEnsembleState \<Rightarrow> MultiPerspectiveEnsembleState" where
  "step1_update m result updates =
     (case result of
        Raised _ \<Rightarrow> updates
      | Returned r \<Rightarrow>
          set_analysis m
            \<lparr>model_type = m, step1_economic = Some r, step2_economic_environmental = [],
             step3_complete_synthesis = [], final_confidence = Fin 0,
             reasoning_evolution = [''Step 1: Economic analysis completed'']\<rparr> updates)"

definition step1_economic_analysis_node ::
  "float_parser \<Rightarrow> MultiPerspectiveEnsembleState \<Rightarrow> world \<Rightarrow> MultiPerspectiveEnsembleState \<times> world" where
  "step1_economic_analysis_node pf state w0 =
     (let (r0, w1) = analyze_perspective pf CLAUDE ECONOMIC (enter STEP1_ECONOMIC w0);
          (r1, w2) = analyze_perspective pf GPT ECONOMIC w1;
          (r2, w3) = analyze_perspective pf GROK ECONOMIC w2;
          updates = state\<lparr>step1_complete := True\<rparr>;
          updates = step1_update CLAUDE (Returned r0) updates;
          updates = step1_update GPT (Returned r1) updates;
          updates = step1_update GROK (Returned r2) updates;
          (judge_step1, w4) = judge_assessment STEP1_ECONOMIC ''Step 1'' w3
      in (updates\<lparr>judge_step1_assessment := judge_step1\<rparr>, w4))"

definition step2_update ::
  "ModelType \<Rightarrow> string outcome \<Rightarrow> MultiPerspectiveEnsembleState \<Rightarrow> MultiPerspectiveEnsembleState
     \<Rightarrow> MultiPerspectiveEnsembleState" where
  "step2_update m result state updates =
     (case (result, analysis_of m state) of
        (Returned r, Some a) \<Rightarrow>
          set_analysis m
            (a\<lparr>step2_economic_environmental := r,
               reasoning_evolution :=
                 reasoning_evolution a @ [''Step 2: Environmental comparison completed'']\<rparr>)
            updates
      | _ \<Rightarrow> updates)"

definition step2_environmental_analysis_node ::
  "MultiPerspectiveEnsembleState \<Rightarrow> world \<Rightarrow> MultiPerspectiveEnsembleState \<times> world" where
  "step2_environmental_analysis_node state w0 =
     (let (r0, w1) = step2_analysis CLAUDE state (enter STEP2_ENVIRONMENTAL w0);
          (r1, w2) = step2_analysis GPT state w1;
          (r2, w3) = step2_analysis GROK state w2;
          updates = state\<lparr>step2_complete := True\<rparr>;
          updates = step2_update CLAUDE (Returned r0) state updates;
          updates = step2_update GPT (Returned r1) state updates;
          updates = step2_update GROK (Returned r2) state updates;
          (judge_step2, w4) = judge_assessment STEP2_ENVIRONMENTAL ''Step 2'' w3
      in (updates\<lparr>judge_step2_assessment := judge_step2\<rparr>, w4))"

definition step3_update ::
  "ModelType \<Rightarrow> (string \<times> pyfloat) outcome \<Rightarrow> MultiPerspectiveEnsembleState
     \<Rightarrow> MultiPerspectiveEnsembleState \<Rightarrow> MultiPerspectiveEnsembleState" where
  "step3_update m result state updates =
     (case (result, analysis_of m state) of
        (Returned (synthesis, confidence), Some a) \<Rightarrow>
          set_analysis m
            (a\<lparr>step3_complete_synthesis := synthesis,
               final_confidence := confidence,
               reasoning_evolution :=
                 reasoning_evolution a
                   @ [''Step 3: Complete synthesis with technological perspective'']\<rparr>)
            updates
      | _ \<Rightarrow> updates)"

definition step3_technological_synthesis_node ::
  "float_parser \<Rightarrow> MultiPerspectiveEnsembleState \<Rightarrow> world \<Rightarrow> MultiPerspectiveEnsembleState \<times> world" where
  "step3_technological_synthesis_node pf state w0 =
     (let (r0, w1) = step3_synthesis pf CLAUDE (enter STEP3_TECHNOLOGICAL w0);
          (r1, w2) = step3_synthesis pf GPT w1;
          (r2, w3) = step3_synthesis pf GROK w2;
          updates = state\<lparr>step3_complete := True\<rparr>;
          updates = step3_update CLAUDE (Returned r0) state updates;
          updates = step3_update GPT (Returned r1) state updates;
          updates = step3_update GROK (Returned r2) state updates;
          (judge_step3, w4) = judge_assessment STEP3_TECHNOLOGICAL ''Step 3'' w3
      in (updates\<lparr>judge_step3_assessment := judge_step3\<rparr>, w4))"

definition judge_evaluation_node ::
  "float_parser \<Rightarrow> MultiPerspectiveEnsembleState \<Rightarrow> world \<Rightarrow> MultiPerspectiveEnsembleState \<times> world" where
  "judge_evaluation_node pf state w0 =
     (case invoke JUDGE_EVALUATION JUDGE (enter JUDGE_EVALUATION w0) of
        (Returned content, w1) \<Rightarrow>
          (state\<lparr>judge_analysis := extract_judge_section content ''FINAL_EVALUATION'',
                 agreements_disagreements := extract_judge_section content ''AGREEMENTS_DISAGREEMENTS'',
                 best_insights := extract_judge_section content ''BEST_INSIGHTS'',
                 final_synthesis := extract_judge_section content ''FINAL_SYNTHESIS'',
                 methodology_assessment := extract_judge_section content ''METHODOLOGY_ASSESSMENT'',
                 quality_scores :=
                   [(''claude'', extract_judge_score pf content ''CLAUDE_SCORE''),
                    (''gpt'', extract_judge_score pf content ''GPT_SCORE''),
                    (''grok'', extract_judge_score pf content ''GROK_SCORE'')],
                 judging_complete := True\<rparr>, w1)
      | (Raised e, w1) \<Rightarrow>
          (state\<lparr>judge_analysis := ''Error in judge evaluation: '' @ e,
                 final_synthesis := ''Unable to complete judge evaluation'',
                 judging_complete := True\<rparr>, w1))"

text \<open>
  \<open>performance_logging_node\<close>: the \<open>improvement_metrics\<close> dictionary. The node also builds
  \<open>baseline_comparison\<close>, \<open>quality_analysis\<close> and \<open>methodology_effectiveness\<close> and hands
  the run to the memory logger; these do not feed \<open>improvement_metrics\<close> and are left
  out. \<open>len(a) / max(len(b), 1)\<close> divides two integers into a float.
\<close>

definition length_improvement :: "string \<Rightarrow> BaselineResponse \<Rightarrow> pyfloat" where
  "length_improvement ensemble_synthesis b =
     Fin (real (length ensemble_synthesis) / real (max (length (br_content b)) 1))"

definition length_metric ::
  "string \<Rightarrow> string \<Rightarrow> BaselineResponse option \<Rightarrow> (string \<times> pyfloat) list" where
  "length_metric key ensemble_synthesis baseline =
     (case baseline of
        None \<Rightarrow> []
      | Some b \<Rightarrow> [(key, py_min (length_improvement ensemble_synthesis b) (Fin 5))])"

definition length_metrics :: "MultiPerspectiveEnsembleState \<Rightarrow> (string \<times> pyfloat) list" where
  "length_metrics state =
     (if final_synthesis state \<noteq> [] then
        length_metric ''claude_length_improvement'' (final_synthesis state) (claude_baseline state)
        @ length_metric ''gpt_length_improvement'' (final_synthesis state) (gpt_baseline state)
        @ length_metric ''grok_length_improvement'' (final_synthesis state) (grok_baseline state)
      else [])"

definition final_confidences :: "MultiPerspectiveEnsembleState \<Rightarrow> pyfloat list" where
  "final_confidences state =
     map final_confidence
       (List.map_filter (\<lambda>m. analysis_of m state) [CLAUDE, GPT, GROK])"

definition baseline_confidences :: "MultiPerspectiveEnsembleState \<Rightarrow> pyfloat list" where
  "baseline_confidences state =
     map br_confidence
       (List.map_filter (\<lambda>m. baseline_of m state) [CLAUDE, GPT, GROK])"

definition fl_average :: "pyfloat list \<Rightarrow> pyfloat" where
  "fl_average xs = fl_div_len (fl_sum xs) (length xs)"

definition confidence_metrics :: "MultiPerspectiveEnsembleState \<Rightarrow> (string \<times> pyfloat) list" where
  "confidence_metrics state =
     (if final_confidences state \<noteq> [] \<and> baseline_confidences state \<noteq> [] then
        (let avg_final_confidence = fl_average (final_confidences state);
             avg_baseline_confidence = fl_average (baseline_confidences state)
         in [(''confidence_improvement'', fl_sub avg_final_confidence avg_baseline_confidence),
             (''average_final_confidence'', avg_final_confidence),
             (''average_baseline_confidence'', avg_baseline_confidence)])
      else [])"

definition average_length_metric :: "(string \<times> pyfloat) list \<Rightarrow> (string \<times> pyfloat) list" where
  "average_length_metric metrics =
     (let length_improvements =
            map snd (filter (\<lambda>kv. py_contains (fst kv) ''length_improvement'') metrics)
      in if metrics \<noteq> [] \<and> length_improvements \<noteq> [] then
           [(''average_length_improvement'', fl_average length_improvements)]
         else [])"

definition performance_logging_node ::
  "MultiPerspectiveEnsembleState \<Rightarrow> world \<Rightarrow> MultiPerspectiveEnsembleState \<times> world" where
  "performance_logging_node state w0 =
     (let metrics = length_metrics state @ confidence_metrics state
      in (state\<lparr>improvement_metrics := metrics @ average_length_metric metrics,
                logging_complete := True\<rparr>,
          enter PERFORMANCE_LOGGING w0))"

section \<open>Orchestrator (graph/multi\_perspective\_ensemble\_graph.py)\<close>

text \<open>\<open>InputPackage.validate_inputs\<close> raises \<open>ValueError("Query is required")\<close>.\<close>

definition validate_inputs :: "InputPackage \<Rightarrow> (py_exn \<times> string) + bool" where
  "validate_inputs pkg =
     (if py_strip (query pkg) = [] then Inl (ValueError, ''Query is required'') else Inr True)"

definition validate_and_prepare_inputs ::
  "string \<Rightarrow> string \<Rightarrow> string \<Rightarrow> string \<Rightarrow> string \<Rightarrow> string \<Rightarrow> string \<Rightarrow> string
     \<Rightarrow> (py_exn \<times> string) + InputPackage" where
  "validate_and_prepare_inputs q p1 p2 p3 ucot chain_of_thought_1 chain_of_thought_2
       chain_of_thought_3 =
     (let pkg =
            \<lparr>query = q, perspective_1 = p1, perspective_2 = p2, perspective_3 = p3,
             universal_cot = ucot,
             perspective_specific_cots =
               [p1 \<mapsto> chain_of_thought_1, p2 \<mapsto> chain_of_thought_2, p3 \<mapsto> chain_of_thought_3]\<rparr>
      in case validate_inputs pkg of
           Inl e \<Rightarrow> Inl e
         | Inr _ \<Rightarrow> Inr pkg)"

text \<open>The compiled graph: the six nodes in the order of its edges.\<close>

definition run_graph ::
  "float_parser \<Rightarrow> MultiPerspectiveEnsembleState \<Rightarrow> world \<Rightarrow> MultiPerspectiveEnsembleState \<times> world" where
  "run_graph pf state w0 =
     (let (s1, w1) = baseline_analysis_node state w0;
          (s2, w2) = step1_economic_analysis_node pf s1 w1;
          (s3, w3) = step2_environmental_analysis_node s2 w2;
          (s4, w4) = step3_technological_synthesis_node pf s3 w3;
          (s5, w5) = judge_evaluation_node pf s4 w4
      in performance_logging_node s5 w5)"

text \<open>\<open>_calculate_advantage_metrics\<close>.\<close>

definition synthesis_lengths :: "MultiPerspectiveEnsembleState \<Rightarrow> nat list" where
  "synthesis_lengths final_state =
     map (\<lambda>a. length (step3_complete_synthesis a))
       (filter (\<lambda>a. step3_complete_synthesis a \<noteq> [])
          (List.map_filter (\<lambda>m. analysis_of m final_state) [CLAUDE, GPT, GROK]))"

definition baseline_lengths :: "MultiPerspectiveEnsembleState \<Rightarrow> nat list" where
  "baseline_lengths final_state =
     map (\<lambda>b. length (br_content b))
       (List.map_filter (\<lambda>m. baseline_of m final_state) [CLAUDE, GPT, GROK])"

definition calculate_advantage_metrics ::
  "MultiPerspectiveEnsembleState \<Rightarrow> (string \<times> pyfloat) list" where
  "calculate_advantage_metrics final_state =
     (if synthesis_lengths final_state \<noteq> [] \<and> baseline_lengths final_state \<noteq> [] then
        (let avg_synthesis_length =
               real (sum_list (synthesis_lengths final_state))
                 / real (length (synthesis_lengths final_state));
             avg_baseline_length =
               real (sum_list (baseline_lengths final_state))
                 / real (length (baseline_lengths final_state))
         in [(''comprehensiveness_improvement'',
                Fin (avg_synthesis_length / max avg_baseline_length 1)),
             (''average_synthesis_length'', Fin avg_synthesis_length),
             (''average_baseline_length'', Fin avg_baseline_length)])
      else [])
     @ (let default_confidences = [Fin (1 / 2), Fin (1 / 2), Fin (1 / 2)]
        in if final_confidences final_state \<noteq> [] then
             (let avg_final_confidence = fl_average (final_confidences final_state);
                  avg_baseline_confidence = fl_average default_confidences
              in [(''confidence_improvement'', fl_sub avg_final_confidence avg_baseline_confidence),
                  (''average_final_confidence'', avg_final_confidence)])
           else [])"

text \<open>
  \<open>process_multi_perspective_query\<close>. \<open>start_time\<close> and \<open>end_time\<close> are the two readings of
  \<open>time.time()\<close>. The result of a completed run is a dictionary of projections of the final
  state; the model keeps the final state itself. The second \<open>try\<close> guards the graph run;
  no modelled node raises, so its handler has no counterpart.
\<close>

record error_result =
  error :: string
  er_query :: string
  er_processing_time :: real

record run_result =
  rr_query :: string
  rr_final_state :: MultiPerspectiveEnsembleState
  multi_perspective_advantage :: "(string \<times> pyfloat) list"
  rr_processing_time :: real

definition process_multi_perspective_query ::
  "float_parser \<Rightarrow> real \<Rightarrow> real \<Rightarrow> string \<Rightarrow> string \<Rightarrow> string \<Rightarrow> string \<Rightarrow> string
     \<Rightarrow> string \<Rightarrow> string \<Rightarrow> string \<Rightarrow> world \<Rightarrow> (error_result + run_result) \<times> world" where
  "process_multi_perspective_query pf start_time end_time q p1 p2 p3 ucot chain_of_thought_1
       chain_of_thought_2 chain_of_thought_3 w =
     (case validate_and_prepare_inputs q p1 p2 p3 ucot chain_of_thought_1 chain_of_thought_2
             chain_of_thought_3 of
        Inl (_, msg) \<Rightarrow>
          (Inl \<lparr>error = ''Input validation failed: '' @ msg, er_query = q,
                er_processing_time = end_time - start_time\<rparr>, w)
      | Inr pkg \<Rightarrow>
          (let (final_state, w') = run_graph pf (initial_state pkg) w
           in (Inr \<lparr>rr_query = q, rr_final_state = final_state,
                    multi_perspective_advantage = calculate_advantage_metrics final_state,
                    rr_processing_time = end_time - start_time\<rparr>, w')))"

section \<open>Progress channel (backend\_websocket\_server.py)\<close>

text \<open>
  A decoded JSON value. \<open>json.loads\<close> is a library function and a parameter \<open>loads\<close> of the
  handler: it decodes the payload or raises \<open>JSONDecodeError\<close> or another exception.
  An object is the list of the items of the decoded dictionary.
\<close>

datatype json = JNull | JBool bool | JInt int | JFloat pyfloat | JStr string
  | JArr "json list" | JObj "(string \<times> json) list"





text \<open>
  A connection: whether it is open, and the messages delivered on it. \<open>send_to_client\<close>
  catches \<open>ConnectionClosed\<close> and every other exception of \<open>websocket.send\<close>.
\<close>

record connection =
  is_open :: bool
  sent :: "json list"

definition send_to_client :: "connection \<Rightarrow> json \<Rightarrow> connection" where
  "send_to_client ws message = (if is_open ws then ws\<lparr>sent := sent ws @ [message]\<rparr> else ws)"






section \<open>Example inputs\<close>

text \<open>
  Concrete inputs for the examples below: a world in which the listed client calls raise
  \<open>timeout\<close> and every other call returns \<open>ok\<close>; a validated input package; a final
  state with a Claude baseline of confidence \<open>0.0\<close>, a Claude analysis of final confidence
  \<open>0.8\<close> and a final synthesis of \<open>n\<close> characters; a decoder that knows three payloads,
  fails on the one-byte frame \<open>0xFF\<close> with an exception that is not a \<open>JSONDecodeError\<close>
  and rejects every other payload; a final state in which the Claude and GPT baselines
  failed (confidence \<open>0.0\<close>) and the Claude and GPT analyses have the final confidences
  \<open>1.0\<close> and \<open>0.5\<close>; and a \<open>handle_start_analysis\<close> that sends nothing.
\<close>

definition failing_world :: "(node \<times> ModelType) list \<Rightarrow> world" where
  "failing_world fails =
     \<lparr>reply = (\<lambda>n m. if (n, m) \<in> set fails then Raised ''timeout'' else Returned ''ok''),
      trace = []\<rparr>"

definition example_package :: InputPackage where
  "example_package =
     \<lparr>query = ''Is wind power viable?'', perspective_1 = ''economic'',
      perspective_2 = ''environmental'', perspective_3 = ''technological'',
      universal_cot = [], perspective_specific_cots = Map.empty\<rparr>"

definition example_final_state :: "nat \<Rightarrow> string \<Rightarrow> MultiPerspectiveEnsembleState" where
  "example_final_state n baseline =
     (initial_state example_package)
       \<lparr>claude_baseline :=
          Some \<lparr>br_model_type = CLAUDE, br_content = baseline, br_confidence = Fin 0\<rparr>,
        claude_analysis :=
          Some \<lparr>model_type = CLAUDE, step1_economic = None, step2_economic_environmental = [],
                step3_complete_synthesis = ''wind'', final_confidence = Fin (4 / 5),
                reasoning_evolution = []\<rparr>,
        final_synthesis := replicate n CHR ''x''\<rparr>"




section \<open>Properties of the string functions\<close>

lemma set_py_strip: "set (py_strip s) \<subseteq> set s"
  unfolding py_strip_def
  by (metis set_dropWhileD set_rev subsetI)

lemma length_py_strip_le: "length (py_strip s) \<le> length s"
proof -
  have "length (py_strip s) \<le> length (dropWhile py_isspace s)"
    unfolding py_strip_def by (metis length_dropWhile_le length_rev)
  also have "\<dots> \<le> length s" by (rule length_dropWhile_le)
  finally show ?thesis .
qed

lemma py_strip_Nil: "py_strip [] = []"
  by (simp add: py_strip_def)

lemma startswith_mem: "startswith s p \<Longrightarrow> c \<in> set p \<Longrightarrow> c \<in> set s"
  unfolding startswith_def by (metis in_set_takeD)

lemma split_colon_1_Some: "CHR '':'' \<in> set line \<Longrightarrow> \<exists>v. split_colon_1 line = Some v"
  unfolding split_colon_1_def
  by (induction line) (auto split: list.splits)

lemma split_colon_1_length: "split_colon_1 line = Some v \<Longrightarrow> length v < length line"
proof -
  assume a: "split_colon_1 line = Some v"
  then obtain c where "dropWhile (\<lambda>c. c \<noteq> CHR '':'') line = c # v"
    by (auto simp: split_colon_1_def split: list.splits)
  then have "Suc (length v) = length (dropWhile (\<lambda>c. c \<noteq> CHR '':'') line)" by simp
  also have "\<dots> \<le> length line" by (rule length_dropWhile_le)
  finally show ?thesis by simp
qed

lemma tagged_has_colon:
  "startswith (py_strip line) (name @ '':'') \<Longrightarrow> \<exists>v. split_colon_1 line = Some v"
  by (rule split_colon_1_Some) (use set_py_strip startswith_mem in fastforce)

lemma split_nl_not_Nil: "split_nl s \<noteq> []"
  by (induction s) (auto split: list.splits)

lemma join_nl_Cons: "ls \<noteq> [] \<Longrightarrow> join_nl (l # ls) = l @ CHR 0x0A # join_nl ls"
  by (cases ls) auto

lemma join_nl_split_nl: "join_nl (split_nl s) = s"
proof (induction s)
  case Nil
  show ?case by simp
next
  case (Cons c cs)
  show ?case
  proof (cases "c = CHR 0x0A")
    case True
    with Cons show ?thesis by (simp add: join_nl_Cons split_nl_not_Nil)
  next
    case False
    obtain l ls where e: "split_nl cs = l # ls"
      using split_nl_not_Nil by (cases "split_nl cs") auto
    with Cons False show ?thesis by (cases ls) auto
  qed
qed

lemma length_join_nl: "length (join_nl ls) = weight ls - 1"
  by (induction ls rule: join_nl.induct) (auto simp: weight_def)

lemma weight_split_nl: "weight (split_nl s) = Suc (length s)"
proof -
  have "weight (split_nl s) \<noteq> 0"
    using split_nl_not_Nil [of s] by (cases "split_nl s") (auto simp: weight_def)
  moreover have "weight (split_nl s) - 1 = length s"
    using length_join_nl [of "split_nl s"] by (simp add: join_nl_split_nl)
  ultimately show ?thesis by simp
qed

lemma weight_snoc: "weight (acc @ [l]) = Suc (weight acc + length l)"
  by (simp add: weight_def)

lemma weight_Cons: "weight (l # ls) = Suc (length l + weight ls)"
  by (simp add: weight_def)

lemma section_scan_no_tag:
  "\<not> list_ex (\<lambda>l. startswith (py_strip l) (name @ '':'')) ls \<Longrightarrow>
   section_scan stops name ls False acc = Inr acc"
  by (induction ls) auto

lemma unbiased_judge_scan_no_tag:
  "\<not> list_ex (\<lambda>l. startswith (py_strip l) (name @ '':'')) ls \<Longrightarrow>
   unbiased_judge_scan name ls False acc = Inr acc"
  by (induction ls) auto

lemma section_scan_weight_le:
  "section_scan stops name ls cap acc = Inr acc' \<Longrightarrow> weight acc' \<le> weight acc + weight ls"
proof (induction ls arbitrary: cap acc)
  case Nil
  then show ?case by simp
next
  case (Cons line rest)
  show ?case
  proof (cases "startswith (py_strip line) (name @ '':'')")
    case True
    then obtain v where v: "split_colon_1 line = Some v" using tagged_has_colon by blast
    with True Cons.prems have "section_scan stops name rest True (acc @ [py_strip v]) = Inr acc'"
      by simp
    from Cons.IH [OF this] have "weight acc' \<le> weight (acc @ [py_strip v]) + weight rest" .
    moreover have "length (py_strip v) < length line"
      using length_py_strip_le [of v] split_colon_1_length [OF v] by simp
    ultimately show ?thesis by (simp add: weight_snoc weight_Cons)
  next
    case False
    show ?thesis
    proof (cases "cap \<and> list_ex (\<lambda>s. startswith (py_strip line) (s @ '':'')) stops")
      case True
      with False Cons.prems have "acc' = acc" by simp
      then show ?thesis by simp
    next
      case nostop: False
      show ?thesis
      proof (cases cap)
        case True
        with False nostop Cons.prems have "section_scan stops name rest cap (acc @ [line]) = Inr acc'"
          by simp
        from Cons.IH [OF this] show ?thesis by (simp add: weight_snoc weight_Cons)
      next
        case cf: False
        with False Cons.prems have "section_scan stops name rest cap acc = Inr acc'"
          by simp
        from Cons.IH [OF this] show ?thesis by (simp add: weight_Cons)
      qed
    qed
  qed
qed

lemma section_scan_weight_less:
  "list_ex (\<lambda>l. startswith (py_strip l) (name @ '':'')) ls \<Longrightarrow>
   section_scan stops name ls False acc = Inr acc' \<Longrightarrow> weight acc' < weight acc + weight ls"
proof (induction ls arbitrary: acc)
  case Nil
  then show ?case by simp
next
  case (Cons line rest)
  show ?case
  proof (cases "startswith (py_strip line) (name @ '':'')")
    case True
    then obtain v where v: "split_colon_1 line = Some v" using tagged_has_colon by blast
    with True Cons.prems have "section_scan stops name rest True (acc @ [py_strip v]) = Inr acc'"
      by simp
    from section_scan_weight_le [OF this]
    have "weight acc' \<le> weight (acc @ [py_strip v]) + weight rest" .
    moreover have "length (py_strip v) < length line"
      using length_py_strip_le [of v] split_colon_1_length [OF v] by simp
    ultimately show ?thesis by (simp add: weight_snoc weight_Cons)
  next
    case False
    with Cons.prems have "list_ex (\<lambda>l. startswith (py_strip l) (name @ '':'')) rest"
      and "section_scan stops name rest False acc = Inr acc'" by simp_all
    from Cons.IH [OF this] show ?thesis by (simp add: weight_Cons)
  qed
qed

lemma section_scan_returns:
  "\<exists>acc'. section_scan stops name ls cap acc = Inr acc'"
proof (induction ls arbitrary: cap acc)
  case Nil
  show ?case by simp
next
  case (Cons line rest)
  show ?case
  proof (cases "startswith (py_strip line) (name @ '':'')")
    case True
    then obtain v where v: "split_colon_1 line = Some v" using tagged_has_colon by blast
    with True Cons.IH [of True "acc @ [py_strip v]"] show ?thesis by simp
  next
    case False
    with Cons.IH [of cap "acc @ [line]"] Cons.IH [of cap acc] show ?thesis
      by (cases cap) auto
  qed
qed

lemma extract_section_no_tag:
  "\<not> list_ex (\<lambda>l. startswith (py_strip l) (name @ '':'')) (split_nl content) \<Longrightarrow>
   extract_section content name = []"
  by (simp add: extract_section_def section_scan_no_tag py_strip_Nil)

lemma extract_section_shorter:
  assumes "list_ex (\<lambda>l. startswith (py_strip l) (name @ '':'')) (split_nl content)"
  shows "length (extract_section content name) < length content"
proof -
  obtain acc' where s: "section_scan section_tags name (split_nl content) False [] = Inr acc'"
    using section_scan_returns by blast
  from section_scan_weight_less [OF assms s]
  have "weight acc' < Suc (length content)" by (simp add: weight_split_nl) (simp add: weight_def)
  moreover have "length (extract_section content name) \<le> weight acc' - 1"
    using length_py_strip_le [of "join_nl acc'"] by (simp add: extract_section_def s length_join_nl)
  moreover have "content \<noteq> []"
    using assms by (auto simp: startswith_def py_strip_Nil)
  ultimately show ?thesis by (cases content) auto
qed

lemma clamp_code: "py_max (Fin 0) (py_min (Fin 1) x) = clamp01 x"
  by (cases x) (auto simp: py_max_def py_min_def clamp01_def)

lemma in_unit_clamp01: "in_unit (clamp01 x)"
  by (cases x) (auto simp: in_unit_def clamp01_def)

lemma has_tag_line_find:
  "has_tag_line content tag =
     (find (\<lambda>l. startswith (py_strip l) (tag @ '':'')) (split_nl content) \<noteq> None)"
  by (auto simp: has_tag_line_def find_None_iff list_ex_iff)

lemma find_tagged_colon:
  "find (\<lambda>l. startswith (py_strip l) (tag @ '':'')) ls = Some line \<Longrightarrow>
   \<exists>v. split_colon_1 line = Some v"
  by (metis (mono_tags, lifting) find_Some_iff tagged_has_colon)

lemma tag_field_None: "(tag_field content tag = None) = (\<not> has_tag_line content tag)"
  by (auto simp: tag_field_def has_tag_line_find split: option.splits dest: find_tagged_colon)

lemma judge_score_scan_find:
  "judge_score_scan pf name ls =
     (case find (\<lambda>l. startswith (py_strip l) (name @ '':'')) ls of
        None \<Rightarrow> Inr (Fin (1 / 2))
      | Some line \<Rightarrow>
          (case split_colon_1 line of
             None \<Rightarrow> Inl IndexError
           | Some v \<Rightarrow>
               (case pf (py_strip v) of
                  None \<Rightarrow> Inl ValueError
                | Some x \<Rightarrow> Inr (clamp01 x))))"
  by (induction ls) (auto simp: clamp_code split: option.splits)

lemma unbiased_judge_score_scan_find:
  "unbiased_judge_score_scan pf name ls =
     (case find (\<lambda>l. startswith (py_strip l) (name @ '':'')) ls of
        None \<Rightarrow> Inr (Fin (1 / 2))
      | Some line \<Rightarrow>
          (case split_colon_1 line of
             None \<Rightarrow> Inl IndexError
           | Some v \<Rightarrow>
               (case pf (py_strip (remove_char CHR '']'' (remove_char CHR ''['' (py_strip v)))) of
                  None \<Rightarrow> Inl ValueError
                | Some x \<Rightarrow> Inr (clamp01 x))))"
  by (induction ls) (auto simp: clamp_code split: option.splits)

lemma confidence_scan_find:
  "confidence_scan pf ls =
     (case find (\<lambda>l. startswith (py_strip l) ''CONFIDENCE:''
                     \<or> startswith (py_strip l) ''FINAL_CONFIDENCE:'') ls of
        None \<Rightarrow> Inr (Fin (7 / 10))
      | Some line \<Rightarrow>
          (case split_colon_1 line of
             None \<Rightarrow> Inl IndexError
           | Some v \<Rightarrow>
               (case pf (py_strip v) of None \<Rightarrow> Inl ValueError | Some x \<Rightarrow> Inr x)))"
  by (induction ls) (auto split: option.splits)

lemma extract_judge_score_field:
  "extract_judge_score pf content name =
     (case tag_field content name of
        None \<Rightarrow> Fin (1 / 2)
      | Some s \<Rightarrow> (case pf s of None \<Rightarrow> Fin (1 / 2) | Some x \<Rightarrow> clamp01 x))"
  by (simp add: extract_judge_score_def judge_score_scan_find tag_field_def split: option.splits)

lemma unbiased_judge_extract_score_field:
  "unbiased_judge_extract_score pf content name =
     (case tag_field content name of
        None \<Rightarrow> Fin (1 / 2)
      | Some s \<Rightarrow>
          (case pf (py_strip (remove_char CHR '']'' (remove_char CHR ''['' s))) of
             None \<Rightarrow> Fin (1 / 2)
           | Some x \<Rightarrow> clamp01 x))"
  by (simp add: unbiased_judge_extract_score_def unbiased_judge_score_scan_find tag_field_def
      split: option.splits)

lemma hello_no_tag: "\<not> has_tag_line ''hello'' ''ANALYSIS''"
  by (simp add: has_tag_line_def startswith_def py_strip_def py_isspace_def)

section \<open>Properties of the nodes\<close>

lemma reply_enter [simp]: "reply (enter n w) = reply w"
  by (simp add: enter_def)

lemma invoke_fst [simp]: "fst (invoke n m w) = reply w n m"
  by (simp add: invoke_def)

lemma invoke_reply [simp]: "reply (snd (invoke n m w)) = reply w"
  by (simp add: invoke_def)

lemma get_baseline_fst:
  "fst (get_baseline m w) =
     (case reply w BASELINE m of
        Returned c \<Rightarrow> \<lparr>br_model_type = m, br_content = c, br_confidence = Fin (1 / 2)\<rparr>
      | Raised e \<Rightarrow> \<lparr>br_model_type = m, br_content = ''Error: '' @ e, br_confidence = Fin 0\<rparr>)"
  by (simp add: get_baseline_def invoke_def split: outcome.splits)

lemma get_baseline_reply [simp]: "reply (snd (get_baseline m w)) = reply w"
  by (simp add: get_baseline_def invoke_def split: outcome.splits)

lemma judge_assessment_reply [simp]: "reply (snd (judge_assessment n l w)) = reply w"
  by (simp add: judge_assessment_def invoke_def split: outcome.splits)

lemma analyze_perspective_fst:
  "fst (analyze_perspective pf m p w) =
     (case reply w STEP1_ECONOMIC m of
        Returned c \<Rightarrow>
          \<lparr>perspective = p, pr_content = extract_section c ''PERSPECTIVE_ANALYSIS'',
           reasoning = extract_section c ''REASONING'', pr_confidence = extract_confidence pf c\<rparr>
      | Raised e \<Rightarrow>
          \<lparr>perspective = p, pr_content = ''Error: '' @ e, reasoning = ''Error occurred'',
           pr_confidence = Fin 0\<rparr>)"
  by (simp add: analyze_perspective_def invoke_def split: outcome.splits)

lemma analyze_perspective_reply [simp]: "reply (snd (analyze_perspective pf m p w)) = reply w"
  by (simp add: analyze_perspective_def invoke_def split: outcome.splits)

lemma step2_analysis_fst:
  "fst (step2_analysis m s w) =
     (if (case analysis_of m s of None \<Rightarrow> True | Some a \<Rightarrow> step1_economic a = None) then
        ''No economic analysis available for comparison''
      else (case reply w STEP2_ENVIRONMENTAL m of
              Returned c \<Rightarrow> c
            | Raised e \<Rightarrow> ''Error in Step 2 analysis: '' @ e))"
  by (simp add: step2_analysis_def invoke_def split: outcome.splits)

lemma step2_analysis_reply [simp]: "reply (snd (step2_analysis m s w)) = reply w"
  by (simp add: step2_analysis_def invoke_def split: outcome.splits)

lemma step3_synthesis_fst:
  "fst (step3_synthesis pf m w) =
     (case reply w STEP3_TECHNOLOGICAL m of
        Returned c \<Rightarrow> (extract_section c ''COMPREHENSIVE_SYNTHESIS'', extract_confidence pf c)
      | Raised e \<Rightarrow> (''Error in final synthesis: '' @ e, Fin 0))"
  by (simp add: step3_synthesis_def invoke_def split: outcome.splits)

lemma step3_synthesis_reply [simp]: "reply (snd (step3_synthesis pf m w)) = reply w"
  by (simp add: step3_synthesis_def invoke_def split: outcome.splits)

lemma baseline_node_baseline:
  "m \<noteq> JUDGE \<Longrightarrow>
   baseline_of m (fst (baseline_analysis_node s w)) =
     Some (case reply w BASELINE m of
        Returned c \<Rightarrow> \<lparr>br_model_type = m, br_content = c, br_confidence = Fin (1 / 2)\<rparr>
      | Raised e \<Rightarrow> \<lparr>br_model_type = m, br_content = ''Error: '' @ e, br_confidence = Fin 0\<rparr>)"
  by (cases m)
    (simp_all add: baseline_analysis_node_def Let_def case_prod_beta get_baseline_fst
      split: outcome.splits)

lemma baseline_node_analysis:
  "analysis_of m (fst (baseline_analysis_node s w)) = analysis_of m s"
  by (cases m) (simp_all add: baseline_analysis_node_def Let_def case_prod_beta)

lemma baseline_node_reply [simp]: "reply (snd (baseline_analysis_node s w)) = reply w"
  by (simp add: baseline_analysis_node_def Let_def case_prod_beta)

lemma step1_node_analysis:
  "m \<noteq> JUDGE \<Longrightarrow>
   analysis_of m (fst (step1_economic_analysis_node pf s w)) =
     Some \<lparr>model_type = m,
           step1_economic = Some (fst (analyze_perspective pf m ECONOMIC w)),
           step2_economic_environmental = [], step3_complete_synthesis = [],
           final_confidence = Fin 0,
           reasoning_evolution = [''Step 1: Economic analysis completed'']\<rparr>"
  by (cases m)
    (simp_all add: step1_economic_analysis_node_def Let_def case_prod_beta step1_update_def
      analyze_perspective_fst split: outcome.splits)

lemma step1_node_reply [simp]: "reply (snd (step1_economic_analysis_node pf s w)) = reply w"
  by (simp add: step1_economic_analysis_node_def Let_def case_prod_beta)

lemma step2_node_analysis:
  "analysis_of m s = Some a \<Longrightarrow>
   analysis_of m (fst (step2_environmental_analysis_node s w)) =
     Some (a\<lparr>step2_economic_environmental := fst (step2_analysis m s w),
             reasoning_evolution :=
               reasoning_evolution a @ [''Step 2: Environmental comparison completed'']\<rparr>)"
  by (cases m; cases "claude_analysis s"; cases "gpt_analysis s"; cases "grok_analysis s")
    (simp_all add: step2_environmental_analysis_node_def Let_def case_prod_beta step2_update_def
      step2_analysis_fst split: outcome.splits)

lemma step2_node_reply [simp]: "reply (snd (step2_environmental_analysis_node s w)) = reply w"
  by (simp add: step2_environmental_analysis_node_def Let_def case_prod_beta)

lemma step3_node_analysis:
  "analysis_of m s = Some a \<Longrightarrow>
   analysis_of m (fst (step3_technological_synthesis_node pf s w)) =
     Some (a\<lparr>step3_complete_synthesis := fst (fst (step3_synthesis pf m w)),
             final_confidence := snd (fst (step3_synthesis pf m w)),
             reasoning_evolution :=
               reasoning_evolution a
                 @ [''Step 3: Complete synthesis with technological perspective'']\<rparr>)"
  by (cases m; cases "claude_analysis s"; cases "gpt_analysis s"; cases "grok_analysis s")
    (simp_all add: step3_technological_synthesis_node_def Let_def case_prod_beta step3_update_def
      step3_synthesis_fst split: outcome.splits)

lemma step3_node_reply [simp]: "reply (snd (step3_technological_synthesis_node pf s w)) = reply w"
  by (simp add: step3_technological_synthesis_node_def Let_def case_prod_beta)

lemma judge_node_analysis:
  "analysis_of m (fst (judge_evaluation_node pf s w)) = analysis_of m s"
  by (cases m) (simp_all add: judge_evaluation_node_def invoke_def split: outcome.splits)

lemma logging_node_analysis:
  "analysis_of m (fst (performance_logging_node s w)) = analysis_of m s"
  by (cases m) (simp_all add: performance_logging_node_def Let_def)

lemma run_graph_reply [simp]: "reply (snd (run_graph pf s w)) = reply w"
  by (simp add: run_graph_def Let_def case_prod_beta performance_logging_node_def
      judge_evaluation_node_def invoke_def split: outcome.splits)

lemma run_graph_analysis:
  assumes "m \<noteq> JUDGE"
  shows "analysis_of m (fst (run_graph pf s w)) =
     Some \<lparr>model_type = m,
           step1_economic = Some (fst (analyze_perspective pf m ECONOMIC w)),
           step2_economic_environmental =
             (case reply w STEP2_ENVIRONMENTAL m of
                Returned c \<Rightarrow> c
              | Raised e \<Rightarrow> ''Error in Step 2 analysis: '' @ e),
           step3_complete_synthesis = fst (fst (step3_synthesis pf m w)),
           final_confidence = snd (fst (step3_synthesis pf m w)),
           reasoning_evolution =
             [''Step 1: Economic analysis completed'',
              ''Step 2: Environmental comparison completed'',
              ''Step 3: Complete synthesis with technological perspective'']\<rparr>"
proof -
  obtain s1 w1 where n1: "baseline_analysis_node s w = (s1, w1)" by fastforce
  obtain s2 w2 where n2: "step1_economic_analysis_node pf s1 w1 = (s2, w2)" by fastforce
  obtain s3 w3 where n3: "step2_environmental_analysis_node s2 w2 = (s3, w3)" by fastforce
  obtain s4 w4 where n4: "step3_technological_synthesis_node pf s3 w3 = (s4, w4)" by fastforce
  obtain s5 w5 where n5: "judge_evaluation_node pf s4 w4 = (s5, w5)" by fastforce
  have r1: "reply w1 = reply w" using baseline_node_reply [of s w] n1 by simp
  have r2: "reply w2 = reply w" using step1_node_reply [of pf s1 w1] n2 r1 by simp
  have r3: "reply w3 = reply w" using step2_node_reply [of s2 w2] n3 r2 by simp
  let ?a2 = "\<lparr>model_type = m,
           step1_economic = Some (fst (analyze_perspective pf m ECONOMIC w)),
           step2_economic_environmental = [], step3_complete_synthesis = [],
           final_confidence = Fin 0,
           reasoning_evolution = [''Step 1: Economic analysis completed'']\<rparr>"
  have a2: "analysis_of m s2 = Some ?a2"
    using step1_node_analysis [OF assms, of pf s1 w1] n2 r1
    by (simp add: analyze_perspective_fst)
  have s2a: "fst (step2_analysis m s2 w2) =
      (case reply w STEP2_ENVIRONMENTAL m of
         Returned c \<Rightarrow> c
       | Raised e \<Rightarrow> ''Error in Step 2 analysis: '' @ e)"
    by (simp add: step2_analysis_fst a2 r2)
  let ?a3 = "?a2\<lparr>step2_economic_environmental := fst (step2_analysis m s2 w2),
             reasoning_evolution :=
               reasoning_evolution ?a2 @ [''Step 2: Environmental comparison completed'']\<rparr>"
  have a3: "analysis_of m s3 = Some ?a3"
    using step2_node_analysis [OF a2, of w2] n3 by simp
  have s3a: "fst (step3_synthesis pf m w3) = fst (step3_synthesis pf m w)"
    by (simp add: step3_synthesis_fst r3)
  have a4: "analysis_of m s4 =
      Some (?a3\<lparr>step3_complete_synthesis := fst (fst (step3_synthesis pf m w3)),
             final_confidence := snd (fst (step3_synthesis pf m w3)),
             reasoning_evolution :=
               reasoning_evolution ?a3
                 @ [''Step 3: Complete synthesis with technological perspective'']\<rparr>)"
    using step3_node_analysis [OF a3, of pf w3] n4 by simp
  have "analysis_of m (fst (run_graph pf s w)) = analysis_of m s4"
    using judge_node_analysis [of m pf s4 w4] logging_node_analysis [of m s5 w5] n5
    by (simp add: run_graph_def n1 n2 n3 n4)
  with a4 s2a s3a show ?thesis by simp
qed

lemma failing_world_reply:
  "reply (failing_world fails) n m =
     (if (n, m) \<in> set fails then Raised ''timeout'' else Returned ''ok'')"
  by (simp add: failing_world_def)

lemma trace_enter [simp]: "trace (enter n w) = trace w @ [Entered n]"
  by (simp add: enter_def)

lemma invoke_trace [simp]: "trace (snd (invoke n m w)) = trace w @ [Called n m]"
  by (simp add: invoke_def)

lemma get_baseline_trace [simp]: "trace (snd (get_baseline m w)) = trace w @ [Called BASELINE m]"
  by (simp add: get_baseline_def invoke_def split: outcome.splits)

lemma judge_assessment_trace [simp]:
  "trace (snd (judge_assessment n l w)) = trace w @ [Called n JUDGE]"
  by (simp add: judge_assessment_def invoke_def split: outcome.splits)

lemma analyze_perspective_trace [simp]:
  "trace (snd (analyze_perspective pf m p w)) = trace w @ [Called STEP1_ECONOMIC m]"
  by (simp add: analyze_perspective_def invoke_def split: outcome.splits)

lemma step2_analysis_trace:
  "analysis_of m s = Some a \<Longrightarrow> step1_economic a = Some p \<Longrightarrow>
   trace (snd (step2_analysis m s w)) = trace w @ [Called STEP2_ENVIRONMENTAL m]"
  by (simp add: step2_analysis_def invoke_def split: outcome.splits)

lemma step3_synthesis_trace [simp]:
  "trace (snd (step3_synthesis pf m w)) = trace w @ [Called STEP3_TECHNOLOGICAL m]"
  by (simp add: step3_synthesis_def invoke_def split: outcome.splits)

lemma baseline_node_trace:
  "trace (snd (baseline_analysis_node s w)) =
     trace w @ [Entered BASELINE, Called BASELINE CLAUDE, Called BASELINE GPT,
                Called BASELINE GROK, Called BASELINE JUDGE]"
  by (simp add: baseline_analysis_node_def Let_def case_prod_beta)

lemma step1_node_trace:
  "trace (snd (step1_economic_analysis_node pf s w)) =
     trace w @ [Entered STEP1_ECONOMIC, Called STEP1_ECONOMIC CLAUDE, Called STEP1_ECONOMIC GPT,
                Called STEP1_ECONOMIC GROK, Called STEP1_ECONOMIC JUDGE]"
  by (simp add: step1_economic_analysis_node_def Let_def case_prod_beta)

lemma step2_node_trace:
  assumes "\<forall>m. m \<noteq> JUDGE \<longrightarrow> (\<exists>a p. analysis_of m s = Some a \<and> step1_economic a = Some p)"
  shows "trace (snd (step2_environmental_analysis_node s w)) =
     trace w @ [Entered STEP2_ENVIRONMENTAL, Called STEP2_ENVIRONMENTAL CLAUDE,
                Called STEP2_ENVIRONMENTAL GPT, Called STEP2_ENVIRONMENTAL GROK,
                Called STEP2_ENVIRONMENTAL JUDGE]"
proof -
  from assms obtain a0 p0 where c: "analysis_of CLAUDE s = Some a0" "step1_economic a0 = Some p0"
    by (metis ModelType.distinct(5))
  from assms obtain a1 p1 where g: "analysis_of GPT s = Some a1" "step1_economic a1 = Some p1"
    by (metis ModelType.distinct(9))
  from assms obtain a2 p2 where k: "analysis_of GROK s = Some a2" "step1_economic a2 = Some p2"
    by (metis ModelType.distinct(11))
  show ?thesis
    by (simp add: step2_environmental_analysis_node_def Let_def case_prod_beta
        step2_analysis_trace [OF c] step2_analysis_trace [OF g] step2_analysis_trace [OF k])
qed

lemma step3_node_trace:
  "trace (snd (step3_technological_synthesis_node pf s w)) =
     trace w @ [Entered STEP3_TECHNOLOGICAL, Called STEP3_TECHNOLOGICAL CLAUDE,
                Called STEP3_TECHNOLOGICAL GPT, Called STEP3_TECHNOLOGICAL GROK,
                Called STEP3_TECHNOLOGICAL JUDGE]"
  by (simp add: step3_technological_synthesis_node_def Let_def case_prod_beta)

lemma judge_node_trace:
  "trace (snd (judge_evaluation_node pf s w)) =
     trace w @ [Entered JUDGE_EVALUATION, Called JUDGE_EVALUATION JUDGE]"
  by (simp add: judge_evaluation_node_def invoke_def enter_def split: outcome.splits)

lemma logging_node_trace:
  "trace (snd (performance_logging_node s w)) = trace w @ [Entered PERFORMANCE_LOGGING]"
  by (simp add: performance_logging_node_def Let_def)

lemma run_graph_trace:
  "trace (snd (run_graph pf s w)) =
     trace w @
       [Entered BASELINE, Called BASELINE CLAUDE, Called BASELINE GPT, Called BASELINE GROK,
        Called BASELINE JUDGE,
        Entered STEP1_ECONOMIC, Called STEP1_ECONOMIC CLAUDE, Called STEP1_ECONOMIC GPT,
        Called STEP1_ECONOMIC GROK, Called STEP1_ECONOMIC JUDGE,
        Entered STEP2_ENVIRONMENTAL, Called STEP2_ENVIRONMENTAL CLAUDE,
        Called STEP2_ENVIRONMENTAL GPT, Called STEP2_ENVIRONMENTAL GROK,
        Called STEP2_ENVIRONMENTAL JUDGE,
        Entered STEP3_TECHNOLOGICAL, Called STEP3_TECHNOLOGICAL CLAUDE,
        Called STEP3_TECHNOLOGICAL GPT, Called STEP3_TECHNOLOGICAL GROK,
        Called STEP3_TECHNOLOGICAL JUDGE,
        Entered JUDGE_EVALUATION, Called JUDGE_EVALUATION JUDGE,
        Entered PERFORMANCE_LOGGING]"
proof -
  obtain s1 w1 where n1: "baseline_analysis_node s w = (s1, w1)" by fastforce
  obtain s2 w2 where n2: "step1_economic_analysis_node pf s1 w1 = (s2, w2)" by fastforce
  obtain s3 w3 where n3: "step2_environmental_analysis_node s2 w2 = (s3, w3)" by fastforce
  obtain s4 w4 where n4: "step3_technological_synthesis_node pf s3 w3 = (s4, w4)" by fastforce
  obtain s5 w5 where n5: "judge_evaluation_node pf s4 w4 = (s5, w5)" by fastforce
  have a2: "\<forall>m. m \<noteq> JUDGE \<longrightarrow> (\<exists>a p. analysis_of m s2 = Some a \<and> step1_economic a = Some p)"
    using step1_node_analysis [of _ pf s1 w1] n2 by simp
  have t1: "trace w1 = trace w @ [Entered BASELINE, Called BASELINE CLAUDE, Called BASELINE GPT,
                Called BASELINE GROK, Called BASELINE JUDGE]"
    using baseline_node_trace [of s w] n1 by simp
  have t2: "trace w2 = trace w1 @ [Entered STEP1_ECONOMIC, Called STEP1_ECONOMIC CLAUDE,
                Called STEP1_ECONOMIC GPT, Called STEP1_ECONOMIC GROK, Called STEP1_ECONOMIC JUDGE]"
    using step1_node_trace [of pf s1 w1] n2 by simp
  have t3: "trace w3 = trace w2 @ [Entered STEP2_ENVIRONMENTAL, Called STEP2_ENVIRONMENTAL CLAUDE,
                Called STEP2_ENVIRONMENTAL GPT, Called STEP2_ENVIRONMENTAL GROK,
                Called STEP2_ENVIRONMENTAL JUDGE]"
    using step2_node_trace [OF a2, of w2] n3 by simp
  have t4: "trace w4 = trace w3 @ [Entered STEP3_TECHNOLOGICAL, Called STEP3_TECHNOLOGICAL CLAUDE,
                Called STEP3_TECHNOLOGICAL GPT, Called STEP3_TECHNOLOGICAL GROK,
                Called STEP3_TECHNOLOGICAL JUDGE]"
    using step3_node_trace [of pf s3 w3] n4 by simp
  have t5: "trace w5 = trace w4 @ [Entered JUDGE_EVALUATION, Called JUDGE_EVALUATION JUDGE]"
    using judge_node_trace [of pf s4 w4] n5 by simp
  have "trace (snd (run_graph pf s w)) = trace w5 @ [Entered PERFORMANCE_LOGGING]"
    by (simp add: run_graph_def n1 n2 n3 n4 n5 logging_node_trace)
  then show ?thesis by (simp add: t1 t2 t3 t4 t5)
qed

lemma py_min_Fin: "py_min (Fin x) (Fin y) = Fin (min x y)"
  by (simp add: py_min_def min_def)

lemma length_metric_lookup:
  "map_of (length_metric key syn bl) k =
     (case bl of
        None \<Rightarrow> None
      | Some b \<Rightarrow>
          if k = key then
            Some (Fin (min (real (length syn) / real (max (length (br_content b)) 1)) 5))
          else None)"
  by (simp add: length_metric_def length_improvement_def py_min_Fin split: option.splits)



lemma send_to_client_open [simp]: "is_open (send_to_client ws m) = is_open ws"
  by (simp add: send_to_client_def)

lemma foldl_send_open [simp]: "is_open (foldl send_to_client ws ms) = is_open ws"
  by (induction ms arbitrary: ws) simp_all






section \<open>Claims about field extraction\<close>

text \<open>
  Claim C1. The confidence is the float parsed from the text after the first line that
  begins with \<open>CONFIDENCE:\<close> or \<open>FINAL_CONFIDENCE:\<close>; the default \<open>0.7\<close> is returned
  when there is no such line or when the text fails to parse. A value that parses is
  returned as it is: \<open>_extract_confidence\<close> does not clamp, so the result need not lie
  in \<open>[0,1]\<close>.
\<close>

theorem extract_confidence_unclamped:
  "extract_confidence pf content =
     (case confidence_field content of
        None \<Rightarrow> Fin (7 / 10)
      | Some s \<Rightarrow> (case pf s of None \<Rightarrow> Fin (7 / 10) | Some x \<Rightarrow> x))"
  by (simp add: extract_confidence_def confidence_scan_find confidence_field_def
      split: option.splits)

text \<open>
  Claim C1, as stated, fails: the response \<open>CONFIDENCE: 5.0\<close> gives the confidence
  \<open>5.0\<close>, outside \<open>[0,1]\<close>.
\<close>

theorem extract_confidence_out_of_range:
  "\<not> in_unit (extract_confidence float_decimal ''CONFIDENCE: 5.0'')"
  by (simp add: extract_confidence_def startswith_def py_strip_def py_isspace_def
      split_colon_1_def float_decimal_def is_digit_def nat_of_digits_def in_unit_def)

text \<open>
  Claim C3. Re-parsing an extracted value for the same tag returns that value exactly when
  the extracted value is empty: extraction removes the tag, so a non-empty value is never
  reproduced.
\<close>

theorem extract_section_fixed_point:
  "(extract_section (extract_section content name) name = extract_section content name)
     = (extract_section content name = [])"
proof
  let ?v = "extract_section content name"
  assume f: "extract_section ?v name = ?v"
  show "?v = []"
  proof (cases "list_ex (\<lambda>l. startswith (py_strip l) (name @ '':'')) (split_nl ?v)")
    case True
    from extract_section_shorter [OF True] f show ?thesis by simp
  next
    case False
    from extract_section_no_tag [OF False] f show ?thesis by simp
  qed
next
  assume "extract_section content name = []"
  then show "extract_section (extract_section content name) name = extract_section content name"
    by (simp add: extract_section_def startswith_def py_strip_Nil)
qed

text \<open>
  Claim C3, as stated, fails: from \<open>REASONING: it depends\<close> the section \<open>REASONING\<close> is
  \<open>it depends\<close>, and re-parsing \<open>it depends\<close> for \<open>REASONING\<close> gives the empty string.
\<close>

theorem extract_section_not_idempotent:
  "extract_section (extract_section ''REASONING: it depends'' ''REASONING'') ''REASONING''
     \<noteq> extract_section ''REASONING: it depends'' ''REASONING''"
  by (simp add: extract_section_def startswith_def py_strip_def py_isspace_def
      split_colon_1_def section_tags_def)

text \<open>
  Claim C4. Both judge score parsers (\<open>_extract_judge_score\<close> of the nodes and
  \<open>UnbiasedJudge._extract_score\<close>) return a value in \<open>[0,1]\<close> for every response text,
  every tag and every behaviour of \<open>float\<close>, and the default \<open>0.5\<close> when no line begins
  with the tag. \<open>_extract_judge_score\<close> parses the text after the tag: it returns \<open>0.5\<close>
  when that text fails to parse, and otherwise the parsed value clamped to \<open>[0,1]\<close> (an
  infinity or NaN included). \<open>UnbiasedJudge._extract_score\<close> first removes the square
  brackets from that text: it returns \<open>0.5\<close> when the text without brackets fails to
  parse, and otherwise the parsed value clamped to \<open>[0,1]\<close>.
\<close>

theorem judge_scores_clamped:
  "in_unit (extract_judge_score pf content name)
   \<and> in_unit (unbiased_judge_extract_score pf content name)
   \<and> (tag_field content name = None) = (\<not> has_tag_line content name)
   \<and> extract_judge_score pf content name =
       (case tag_field content name of
          None \<Rightarrow> Fin (1 / 2)
        | Some s \<Rightarrow> (case pf s of None \<Rightarrow> Fin (1 / 2) | Some x \<Rightarrow> clamp01 x))
   \<and> unbiased_judge_extract_score pf content name =
       (case tag_field content name of
          None \<Rightarrow> Fin (1 / 2)
        | Some s \<Rightarrow>
            (case pf (py_strip (remove_char CHR '']'' (remove_char CHR ''['' s))) of
               None \<Rightarrow> Fin (1 / 2)
             | Some x \<Rightarrow> clamp01 x))"
proof -
  have half: "in_unit (Fin (1 / 2))" by (simp add: in_unit_def)
  have "in_unit (extract_judge_score pf content name)"
    by (simp add: extract_judge_score_field half in_unit_clamp01 split: option.splits)
  moreover have "in_unit (unbiased_judge_extract_score pf content name)"
    by (simp add: unbiased_judge_extract_score_field half in_unit_clamp01 split: option.splits)
  ultimately show ?thesis
    using tag_field_None extract_judge_score_field unbiased_judge_extract_score_field by blast
qed

text \<open>
  Claim C4, as stated, fails for \<open>UnbiasedJudge._extract_score\<close>: in \<open>GPT_SCORE: [0.85]\<close>
  the text after the tag is \<open>[0.85]\<close>, which does not parse as a float, and the score is
  \<open>0.85\<close>, not the default; \<open>_extract_judge_score\<close> returns \<open>0.5\<close> there.
\<close>

theorem bracketed_score_not_default:
  "tag_field ''GPT_SCORE: [0.85]'' ''GPT_SCORE'' = Some ''[0.85]''
   \<and> float_decimal ''[0.85]'' = None
   \<and> unbiased_judge_extract_score float_decimal ''GPT_SCORE: [0.85]'' ''GPT_SCORE''
       = Fin (85 / 100)
   \<and> extract_judge_score float_decimal ''GPT_SCORE: [0.85]'' ''GPT_SCORE'' = Fin (1 / 2)"
  by (simp add: tag_field_def unbiased_judge_extract_score_def extract_judge_score_def
      startswith_def py_strip_def py_isspace_def split_colon_1_def remove_char_def
      float_decimal_def is_digit_def nat_of_digits_def py_max_def py_min_def)

text \<open>
  Claim C8. When no line of the text begins with the tag, \<open>_extract_section\<close> and
  \<open>_extract_judge_section\<close> of the nodes return the empty string, and
  \<open>UnbiasedJudge._extract_section\<close> returns the whole text unchanged.
\<close>

theorem missing_section:
  "\<not> has_tag_line content name \<Longrightarrow>
     extract_section content name = []
     \<and> extract_judge_section content name = []
     \<and> unbiased_judge_extract_section content name = content"
  by (simp add: has_tag_line_def extract_section_def extract_judge_section_def
      unbiased_judge_extract_section_def section_scan_no_tag unbiased_judge_scan_no_tag py_strip_Nil)

theorem missing_section_witness:
  "\<not> has_tag_line ''hello'' ''ANALYSIS''
   \<and> extract_section ''hello'' ''ANALYSIS'' = []
   \<and> extract_judge_section ''hello'' ''ANALYSIS'' = []
   \<and> unbiased_judge_extract_section ''hello'' ''ANALYSIS'' = ''hello''"
  using missing_section [OF hello_no_tag] hello_no_tag by simp

text \<open>
  Claim C8, as stated, fails for the judge's parser: \<open>hello\<close> has no line beginning with
  \<open>ANALYSIS:\<close>, and \<open>UnbiasedJudge._extract_section\<close> returns \<open>hello\<close>, not the empty
  string.
\<close>

theorem missing_section_judge_counterexample:
  "\<not> has_tag_line ''hello'' ''ANALYSIS''
   \<and> unbiased_judge_extract_section ''hello'' ''ANALYSIS'' \<noteq> []"
  by (simp add: has_tag_line_def unbiased_judge_extract_section_def startswith_def py_strip_def
      py_isspace_def)

section \<open>Claims about the pipeline\<close>

text \<open>
  Claim C2. After a run, every back end has a ModelAnalysis whose three stage fields are
  filled from what its adapter did at that stage: the parsed response when the call
  returned, and a placeholder when the call raised (\<open>Error: ...\<close> with confidence \<open>0.0\<close>
  at stage 1, \<open>Error in Step 2 analysis: ...\<close> at stage 2, \<open>Error in final synthesis: ...\<close>
  with final confidence \<open>0.0\<close> at stage 3). An adapter error therefore leaves the slot
  populated with error text, not empty.
\<close>

theorem stage_slots_after_run:
  assumes "m \<noteq> JUDGE"
  shows "\<exists>a. analysis_of m (fst (run_graph pf s w)) = Some a
     \<and> step1_economic a =
         Some (case reply w STEP1_ECONOMIC m of
                 Returned c \<Rightarrow>
                   \<lparr>perspective = ECONOMIC,
                    pr_content = extract_section c ''PERSPECTIVE_ANALYSIS'',
                    reasoning = extract_section c ''REASONING'',
                    pr_confidence = extract_confidence pf c\<rparr>
               | Raised e \<Rightarrow>
                   \<lparr>perspective = ECONOMIC, pr_content = ''Error: '' @ e,
                    reasoning = ''Error occurred'', pr_confidence = Fin 0\<rparr>)
     \<and> step2_economic_environmental a =
         (case reply w STEP2_ENVIRONMENTAL m of
            Returned c \<Rightarrow> c
          | Raised e \<Rightarrow> ''Error in Step 2 analysis: '' @ e)
     \<and> step3_complete_synthesis a =
         (case reply w STEP3_TECHNOLOGICAL m of
            Returned c \<Rightarrow> extract_section c ''COMPREHENSIVE_SYNTHESIS''
          | Raised e \<Rightarrow> ''Error in final synthesis: '' @ e)
     \<and> final_confidence a =
         (case reply w STEP3_TECHNOLOGICAL m of
            Returned c \<Rightarrow> extract_confidence pf c
          | Raised e \<Rightarrow> Fin 0)"
  by (simp add: run_graph_analysis [OF assms] analyze_perspective_fst step3_synthesis_fst
      split: outcome.splits)

theorem stage_slots_after_run_witness:
  "CLAUDE \<noteq> JUDGE
   \<and> (\<exists>a. analysis_of CLAUDE
          (fst (run_graph float_decimal (initial_state example_package)
                  (failing_world [(STEP2_ENVIRONMENTAL, CLAUDE)]))) = Some a
        \<and> step2_economic_environmental a = ''Error in Step 2 analysis: timeout''
        \<and> step3_complete_synthesis a = [])"
proof -
  have "extract_section ''ok'' ''COMPREHENSIVE_SYNTHESIS'' = []"
    by (rule extract_section_no_tag) (simp add: startswith_def py_strip_def py_isspace_def)
  then show ?thesis
    using stage_slots_after_run [of CLAUDE float_decimal "initial_state example_package"
        "failing_world [(STEP2_ENVIRONMENTAL, CLAUDE)]"]
    by (auto simp: failing_world_reply)
qed

text \<open>
  Claim C2, as stated, fails: when the Claude adapter raises \<open>timeout\<close> at stage 2, the
  stage-2 field of Claude's analysis is \<open>Error in Step 2 analysis: timeout\<close>, which is
  not empty.
\<close>

theorem adapter_error_populates_slot:
  "map_option step2_economic_environmental
     (claude_analysis
        (fst (run_graph float_decimal (initial_state example_package)
                (failing_world [(STEP2_ENVIRONMENTAL, CLAUDE)]))))
     = Some ''Error in Step 2 analysis: timeout''"
  using run_graph_analysis [of CLAUDE float_decimal "initial_state example_package"
      "failing_world [(STEP2_ENVIRONMENTAL, CLAUDE)]"]
  by (simp add: failing_world_reply)

text \<open>
  Claim C5. When the final synthesis is not empty, the length-improvement metric recorded
  for a back end that has a baseline is the quotient of the length of the final synthesis
  by the length of that baseline, a baseline of length zero counting as length one, and
  capped at \<open>5.0\<close>. (The quotient is the exact one; Python rounds it to a double.)
\<close>

theorem length_improvement_capped:
  assumes "final_synthesis s \<noteq> []"
  shows "(\<forall>b. claude_baseline s = Some b \<longrightarrow>
            map_of (improvement_metrics (fst (performance_logging_node s w)))
              ''claude_length_improvement'' =
            Some (Fin (min (real (length (final_synthesis s))
                            / real (max (length (br_content b)) 1)) 5)))
     \<and> (\<forall>b. gpt_baseline s = Some b \<longrightarrow>
            map_of (improvement_metrics (fst (performance_logging_node s w)))
              ''gpt_length_improvement'' =
            Some (Fin (min (real (length (final_synthesis s))
                            / real (max (length (br_content b)) 1)) 5)))
     \<and> (\<forall>b. grok_baseline s = Some b \<longrightarrow>
            map_of (improvement_metrics (fst (performance_logging_node s w)))
              ''grok_length_improvement'' =
            Some (Fin (min (real (length (final_synthesis s))
                            / real (max (length (br_content b)) 1)) 5)))"
  using assms
  by (simp add: performance_logging_node_def Let_def length_metrics_def map_add_def
      length_metric_lookup split: option.splits)

theorem length_improvement_capped_witness:
  "final_synthesis (example_final_state 10000 ''a'') \<noteq> []
   \<and> map_of (improvement_metrics
        (fst (performance_logging_node (example_final_state 10000 ''a'') (failing_world []))))
        ''claude_length_improvement'' = Some (Fin 5)
   \<and> map_of (improvement_metrics
        (fst (performance_logging_node (example_final_state 3 []) (failing_world []))))
        ''claude_length_improvement'' = Some (Fin 3)"
proof -
  have ne: "final_synthesis (example_final_state 10000 ''a'') \<noteq> []"
    and ne': "final_synthesis (example_final_state 3 []) \<noteq> []"
    by (simp_all add: example_final_state_def initial_state_def)
  show ?thesis
    using length_improvement_capped [OF ne, of "failing_world []"]
      length_improvement_capped [OF ne', of "failing_world []"] ne
    by (simp add: example_final_state_def initial_state_def)
qed

text \<open>
  Claim C6. In the baseline node, a back end whose call raises gets the BaselineResponse
  with the content \<open>Error: \<close> followed by the message and confidence \<open>0.0\<close>; a back end
  whose call returns gets the response text and confidence \<open>0.5\<close>; and the
  BaselineResponse of a back end is the same in every world in which its own call does the
  same, whatever the other calls do.
\<close>

theorem baseline_failure_isolated:
  assumes "m \<noteq> JUDGE"
  shows "(\<forall>e. reply w BASELINE m = Raised e \<longrightarrow>
            baseline_of m (fst (baseline_analysis_node s w)) =
              Some \<lparr>br_model_type = m, br_content = ''Error: '' @ e, br_confidence = Fin 0\<rparr>)
     \<and> (\<forall>c. reply w BASELINE m = Returned c \<longrightarrow>
            baseline_of m (fst (baseline_analysis_node s w)) =
              Some \<lparr>br_model_type = m, br_content = c, br_confidence = Fin (1 / 2)\<rparr>)
     \<and> (\<forall>w'. reply w' BASELINE m = reply w BASELINE m \<longrightarrow>
            baseline_of m (fst (baseline_analysis_node s w')) =
              baseline_of m (fst (baseline_analysis_node s w)))"
  by (simp add: baseline_node_baseline [OF assms])

theorem baseline_failure_isolated_witness:
  "baseline_of CLAUDE
     (fst (baseline_analysis_node (initial_state example_package)
            (failing_world [(BASELINE, CLAUDE)]))) =
     Some \<lparr>br_model_type = CLAUDE, br_content = ''Error: timeout'', br_confidence = Fin 0\<rparr>
   \<and> baseline_of GPT
     (fst (baseline_analysis_node (initial_state example_package)
            (failing_world [(BASELINE, CLAUDE)]))) =
     Some \<lparr>br_model_type = GPT, br_content = ''ok'', br_confidence = Fin (1 / 2)\<rparr>
   \<and> baseline_of GPT
     (fst (baseline_analysis_node (initial_state example_package) (failing_world []))) =
     baseline_of GPT
     (fst (baseline_analysis_node (initial_state example_package)
            (failing_world [(BASELINE, CLAUDE)])))"
proof -
  have c: "CLAUDE \<noteq> JUDGE" and g: "GPT \<noteq> JUDGE" by simp_all
  show ?thesis
    using baseline_failure_isolated [OF c, of "failing_world [(BASELINE, CLAUDE)]"
        "initial_state example_package"]
      baseline_failure_isolated [OF g, of "failing_world [(BASELINE, CLAUDE)]"
        "initial_state example_package"]
    by (simp add: failing_world_reply)
qed

text \<open>
  Claim C7. For a query that is empty after trimming, \<open>process_multi_perspective_query\<close>
  returns the error result with the message \<open>Input validation failed: Query is required\<close>,
  the query and the elapsed time, and leaves the world as it was: no node is entered and
  no client is called. (The exception raised is a \<open>ValueError\<close>; lemma \<open>run_graph_trace\<close>
  shows what a run that starts does enter and call.)
\<close>

theorem empty_query_rejected:
  assumes "py_strip q = []"
  shows "process_multi_perspective_query pf start_time end_time q p1 p2 p3 ucot c1 c2 c3 w =
     (Inl \<lparr>error = ''Input validation failed: Query is required'', er_query = q,
           er_processing_time = end_time - start_time\<rparr>, w)"
  using assms
  by (simp add: process_multi_perspective_query_def validate_and_prepare_inputs_def
      validate_inputs_def)

theorem empty_query_rejected_witness:
  "py_strip ''   '' = []
   \<and> process_multi_perspective_query float_decimal 10 12 ''   '' ''economic'' ''environmental''
       ''technological'' [] [] [] [] (failing_world []) =
     (Inl \<lparr>error = ''Input validation failed: Query is required'', er_query = ''   '',
           er_processing_time = 2\<rparr>, failing_world [])"
proof -
  have e: "py_strip ''   '' = []" by (simp add: py_strip_def py_isspace_def)
  show ?thesis
    using empty_query_rejected [OF e, of float_decimal 10 12 "''economic''" "''environmental''"
        "''technological''" "[]" "[]" "[]" "[]" "failing_world []"] e
    by simp
qed





end
